theory Spec2Isabelle
  imports Complex_Main "HOL-Library.Sublist"
begin

section \<open>The news widget of \<open>src/components/NewsSection.tsx\<close>\<close>

subsection \<open>JavaScript values that come out of \<open>response.json()\<close>\<close>

text \<open>
  A parsed JSON document. \<open>JObj\<close> lists the own properties of a parsed object, each key
  once. Numbers are carried through by the widget and never computed with; only whether a
  number is zero matters (truthiness).
\<close>

datatype json =
    JNull
  | JBool bool
  | JNum rat
  | JStr string
  | JArr "json list"
  | JObj "(string \<times> json) list"

text \<open>A JavaScript value read from a property: \<open>None\<close> is \<open>undefined\<close>.\<close>

type_synonym jsval = "json option"

text \<open>
  What a rejected promise or a \<open>throw\<close> carries. \<open>Error v\<close> is \<open>new Error(v)\<close>, kept
  with the argument it was built from. \<open>fetch\<close> rejects with a \<open>TypeError\<close> on a
  transport failure, \<open>response.json()\<close> with a \<open>SyntaxError\<close> on a malformed body.
\<close>

datatype js_error = TypeError | SyntaxError | AbortError | Error jsval

text \<open>
  \<open>v.k\<close> for a value \<open>v\<close> that is neither \<open>null\<close> nor \<open>undefined\<close>. None of the
  property names the widget reads (\<open>feed\<close>, \<open>title\<close>, \<open>status\<close>, ...) is a built-in
  property of a string, number, boolean or array, so reading them there gives
  \<open>undefined\<close>. Reading a property of \<open>null\<close> or \<open>undefined\<close> throws; the callers
  check for that before they use \<open>getProp\<close>.
\<close>

fun getProp :: "json \<Rightarrow> string \<Rightarrow> jsval" where
  "getProp (JObj kvs) k = map_of kvs k"
| "getProp _ k = None"

text \<open>ToBoolean.\<close>

fun truthy :: "jsval \<Rightarrow> bool" where
  "truthy None = False"
| "truthy (Some JNull) = False"
| "truthy (Some (JBool b)) = b"
| "truthy (Some (JNum n)) = (n \<noteq> 0)"
| "truthy (Some (JStr s)) = (s \<noteq> [])"
| "truthy (Some (JArr xs)) = True"
| "truthy (Some (JObj kvs)) = True"

text \<open>\<open>a || b\<close>.\<close>

definition or_else :: "jsval \<Rightarrow> jsval \<Rightarrow> jsval" where
  "or_else a b = (if truthy a then a else b)"

subsection \<open>Strings\<close>

text \<open>
  Strings are modelled as lists of ASCII characters. \<open>toLowerCase\<close> maps \<open>A\<close>..\<open>Z\<close> to
  \<open>a\<close>..\<open>z\<close> and leaves every other character alone.
\<close>

definition toLowerCase_char :: "char \<Rightarrow> char" where
  "toLowerCase_char c =
     (case map_of (zip ''ABCDEFGHIJKLMNOPQRSTUVWXYZ'' ''abcdefghijklmnopqrstuvwxyz'') c of
        Some d \<Rightarrow> d
      | None \<Rightarrow> c)"

definition toLowerCase :: "string \<Rightarrow> string" where
  "toLowerCase s = map toLowerCase_char s"

text \<open>\<open>s.startsWith(sub)\<close> and \<open>s.includes(sub)\<close>, by scanning \<open>s\<close> from the left.\<close>

fun startsWith :: "string \<Rightarrow> string \<Rightarrow> bool" where
  "startsWith s [] = True"
| "startsWith [] (c # cs) = False"
| "startsWith (d # ds) (c # cs) = (d = c \<and> startsWith ds cs)"

fun string_includes :: "string \<Rightarrow> string \<Rightarrow> bool" where
  "string_includes [] sub = (sub = [])"
| "string_includes (d # ds) sub = (startsWith (d # ds) sub \<or> string_includes ds sub)"

text \<open>\<open>n.toString()\<close> for a non-negative integer: its decimal digits.\<close>

definition digit :: "nat \<Rightarrow> char" where
  "digit d = ''0123456789'' ! (d mod 10)"

fun toString :: "nat \<Rightarrow> string" where
  "toString n = (if n < 10 then [digit n] else toString (n div 10) @ [digit (n mod 10)])"

declare toString.simps [simp del]

text \<open>\<open>String(n).padStart(w, '0')\<close>.\<close>

definition padStart0 :: "nat \<Rightarrow> nat \<Rightarrow> string" where
  "padStart0 w n = replicate (w - length (toString n)) CHR ''0'' @ toString n"

text \<open>
  \<open>encodeURIComponent\<close> on ASCII text: the unreserved characters stay, every other
  character becomes \<open>%\<close> and its two upper-case hexadecimal digits.
\<close>

definition hexdigit :: "nat \<Rightarrow> char" where
  "hexdigit d = ''0123456789ABCDEF'' ! (d mod 16)"

definition uriUnreserved :: string where
  "uriUnreserved =
     ''ABCDEFGHIJKLMNOPQRSTUVWXYZabcdefghijklmnopqrstuvwxyz0123456789-_.!~*'' @ [CHR 39] @ ''()''"

definition encodeURIComponent :: "string \<Rightarrow> string" where
  "encodeURIComponent s =
     concat (map (\<lambda>c. if c \<in> set uriUnreserved then [c]
                      else [CHR ''%'', hexdigit (of_char c div 16), hexdigit (of_char c mod 16)]) s)"

subsection \<open>Dates\<close>

text \<open>
  A time value is a number of milliseconds since the epoch. \<open>civil_from_days\<close> turns a
  day number into year, month and day of the proleptic Gregorian calendar, as
  \<open>Date.prototype.toISOString\<close> prints them. Readings of \<open>Date.now()\<close> are natural
  numbers (a clock at or after the epoch), so every date built below is a valid
  \<open>Date\<close> and \<open>toISOString\<close> has no \<open>RangeError\<close> to raise.
\<close>

definition civil_from_days :: "int \<Rightarrow> int \<times> nat \<times> nat" where
  "civil_from_days z0 =
     (let z = z0 + 719468;
          era = z div 146097;
          doe = z - era * 146097;
          yoe = (doe - doe div 1460 + doe div 36524 - doe div 146096) div 365;
          y = yoe + era * 400;
          doy = doe - (365 * yoe + yoe div 4 - yoe div 100);
          mp = (5 * doy + 2) div 153;
          d = doy - (153 * mp + 2) div 5 + 1;
          m = (if mp < 10 then mp + 3 else mp - 9)
      in (if m \<le> 2 then y + 1 else y, nat m, nat d))"

definition isoYear :: "int \<Rightarrow> string" where
  "isoYear y =
     (if 0 \<le> y \<and> y \<le> 9999 then padStart0 4 (nat y)
      else (if y < 0 then ''-'' else ''+'') @ padStart0 6 (nat \<bar>y\<bar>))"

definition toISOString :: "int \<Rightarrow> string" where
  "toISOString t =
     (let days = t div 86400000;
          ms = nat (t mod 86400000);
          (y, m, d) = civil_from_days days
      in isoYear y @ ''-'' @ padStart0 2 m @ ''-'' @ padStart0 2 d @ ''T''
         @ padStart0 2 (ms div 3600000) @ '':'' @ padStart0 2 (ms div 60000 mod 60) @ '':''
         @ padStart0 2 (ms div 1000 mod 60) @ ''.'' @ padStart0 3 (ms mod 1000) @ ''Z'')"

subsection \<open>Canonical items and the widget's state\<close>

text \<open>
  \<open>interface NewsItem\<close>. The providers fill the fields from \<open>any\<close>-typed upstream
  data, so at run time a field holds whatever JSON value the upstream sent, or
  \<open>undefined\<close>. \<open>item_id\<close> is the field \<open>id\<close>, always a string.
\<close>

record NewsItem =
  item_id :: string
  title :: jsval
  description :: jsval
  url :: jsval
  publishedAt :: jsval
  source :: jsval
  category :: jsval
  imageUrl :: jsval
  sentiment :: jsval

text \<open>
  The element type of the array literal \<open>mockNews\<close>: every field a string. The return
  type annotation \<open>NewsItem[]\<close> of \<open>getMockNews\<close> widens it (\<open>asNewsItem\<close>); the
  literal has no \<open>category\<close> and no \<open>imageUrl\<close>.
\<close>

record MockItem =
  mock_id :: string
  mock_title :: string
  mock_description :: string
  mock_url :: string
  mock_publishedAt :: string
  mock_source :: string
  mock_sentiment :: string

definition asNewsItem :: "MockItem \<Rightarrow> NewsItem" where
  "asNewsItem m =
     \<lparr>item_id = mock_id m,
      title = Some (JStr (mock_title m)),
      description = Some (JStr (mock_description m)),
      url = Some (JStr (mock_url m)),
      publishedAt = Some (JStr (mock_publishedAt m)),
      source = Some (JStr (mock_source m)),
      category = None,
      imageUrl = None,
      sentiment = Some (JStr (mock_sentiment m))\<rparr>"

text \<open>The \<open>useState\<close> cells of the component; \<open>lastUpdated\<close> as a time value.\<close>

record state =
  news :: "NewsItem list"
  loading :: bool
  error :: "string option"
  selectedCategory :: string
  lastUpdated :: nat

text \<open>\<open>process.env\<close>, and the two constants computed from it (lines 20-21).\<close>

record process_env =
  REACT_APP_NEWS_API_KEY :: "string option"
  REACT_APP_ALPHA_VANTAGE_API_KEY :: "string option"

definition NEWS_API_KEY :: "process_env \<Rightarrow> string" where
  "NEWS_API_KEY env =
     (case REACT_APP_NEWS_API_KEY env of
        Some k \<Rightarrow> (if k \<noteq> [] then k else [])
      | None \<Rightarrow> [])"

definition ALPHA_VANTAGE_API_KEY :: "process_env \<Rightarrow> string" where
  "ALPHA_VANTAGE_API_KEY env =
     (case REACT_APP_ALPHA_VANTAGE_API_KEY env of
        Some k \<Rightarrow> (if k \<noteq> [] then k else ''demo'')
      | None \<Rightarrow> ''demo'')"

text \<open>
  The network: what \<open>fetch(url)\<close> followed by \<open>response.json()\<close> gives for a URL,
  either the parsed body or the error the promise rejects with. \<open>fetch\<close> does not
  reject on a non-2xx status; the body of such a response is parsed like any other.
\<close>

type_synonym network = "string \<Rightarrow> js_error + json"

subsection \<open>The primary provider: \<open>fetchAlphaVantageNews\<close>\<close>

text \<open>
  \<open>v?.toLowerCase()\<close>: \<open>undefined\<close> for \<open>undefined\<close> and \<open>null\<close>, the lower-cased
  string for a string, and a \<open>TypeError\<close> for any other value (it has no method
  \<open>toLowerCase\<close> to call).
\<close>

fun optional_toLowerCase :: "jsval \<Rightarrow> js_error + jsval" where
  "optional_toLowerCase None = Inr None"
| "optional_toLowerCase (Some JNull) = Inr None"
| "optional_toLowerCase (Some (JStr s)) = Inr (Some (JStr (toLowerCase s)))"
| "optional_toLowerCase (Some v) = Inl TypeError"

text \<open>
  \<open>xs.map(f)\<close> for a callback that may throw: the callback runs on the elements in
  order, with their indices, and the first throw ends the whole call.
\<close>

fun map_index :: "(json \<Rightarrow> nat \<Rightarrow> js_error + 'a) \<Rightarrow> nat \<Rightarrow> json list \<Rightarrow> js_error + 'a list" where
  "map_index f i [] = Inr []"
| "map_index f i (x # xs) =
     (case f x i of
        Inl e \<Rightarrow> Inl e
      | Inr y \<Rightarrow> (case map_index f (Suc i) xs of Inl e \<Rightarrow> Inl e | Inr ys \<Rightarrow> Inr (y # ys)))"

text \<open>The callback of lines 49-58. Reading \<open>item.title\<close> of \<open>null\<close> throws.\<close>

definition alphaVantageItem :: "json \<Rightarrow> nat \<Rightarrow> js_error + NewsItem" where
  "alphaVantageItem item index =
     (if item = JNull then Inl TypeError
      else (case optional_toLowerCase (getProp item ''overall_sentiment_label'') of
              Inl e \<Rightarrow> Inl e
            | Inr label \<Rightarrow>
                Inr \<lparr>item_id = toString index,
                     title = getProp item ''title'',
                     description = getProp item ''summary'',
                     url = getProp item ''url'',
                     publishedAt = getProp item ''time_published'',
                     source = getProp item ''source'',
                     category = None,
                     imageUrl = getProp item ''banner_image'',
                     sentiment = or_else label (Some (JStr ''neutral''))\<rparr>))"

definition alphaVantageUrl :: "process_env \<Rightarrow> string" where
  "alphaVantageUrl env =
     ''https://www.alphavantage.co/query?function=NEWS_SENTIMENT&topics=financial_markets,earnings,technology&apikey=''
       @ ALPHA_VANTAGE_API_KEY env"

text \<open>
  Lines 37-66. The \<open>catch\<close> logs and rethrows, so every error leaves the function as
  it arose.
\<close>

definition fetchAlphaVantageNews :: "process_env \<Rightarrow> network \<Rightarrow> js_error + NewsItem list" where
  "fetchAlphaVantageNews env net =
     (case net (alphaVantageUrl env) of
        Inl e \<Rightarrow> Inl e
      | Inr data \<Rightarrow>
          if data = JNull then Inl TypeError
          else if truthy (getProp data ''Error Message'')
            then Inl (Error (Some (JStr ''Failed to fetch news data'')))
          else (case getProp data ''feed'' of
                  Some (JArr feed) \<Rightarrow> map_index alphaVantageItem 0 (take 10 feed)
                | _ \<Rightarrow> Inr []))"

subsection \<open>The secondary provider: \<open>fetchNewsAPI\<close>\<close>

text \<open>The \<open>switch\<close> of lines 71-81.\<close>

definition newsApiQuery :: "string \<Rightarrow> string" where
  "newsApiQuery cat =
     (if cat = ''technology'' then ''technology stocks OR tech earnings OR semiconductor''
      else if cat = ''earnings'' then ''earnings report OR quarterly results OR financial results''
      else ''stock market OR investing OR financial markets'')"

definition newsApiUrl :: "process_env \<Rightarrow> string \<Rightarrow> string" where
  "newsApiUrl env cat =
     ''https://newsapi.org/v2/everything?q='' @ encodeURIComponent (newsApiQuery cat)
       @ ''&language=en&sortBy=publishedAt&pageSize=10&apiKey='' @ NEWS_API_KEY env"

text \<open>
  The callback of lines 92-101. \<open>article.source.name\<close> throws when \<open>article.source\<close>
  is \<open>undefined\<close> or \<open>null\<close>.
\<close>

definition newsApiItem :: "string \<Rightarrow> json \<Rightarrow> nat \<Rightarrow> js_error + NewsItem" where
  "newsApiItem cat article index =
     (if article = JNull then Inl TypeError
      else (case getProp article ''source'' of
              None \<Rightarrow> Inl TypeError
            | Some JNull \<Rightarrow> Inl TypeError
            | Some src \<Rightarrow>
                Inr \<lparr>item_id = toString index,
                     title = getProp article ''title'',
                     description = getProp article ''description'',
                     url = getProp article ''url'',
                     publishedAt = getProp article ''publishedAt'',
                     source = getProp src ''name'',
                     category = Some (JStr cat),
                     imageUrl = getProp article ''urlToImage'',
                     sentiment = None\<rparr>))"

text \<open>
  Lines 69-106. \<open>data.articles.map\<close> throws a \<open>TypeError\<close> unless \<open>data.articles\<close>
  is an array. The result is not cut to a length: the request asks the upstream for
  \<open>pageSize=10\<close>.
\<close>

definition fetchNewsAPI :: "process_env \<Rightarrow> network \<Rightarrow> string \<Rightarrow> js_error + NewsItem list" where
  "fetchNewsAPI env net cat =
     (case net (newsApiUrl env cat) of
        Inl e \<Rightarrow> Inl e
      | Inr data \<Rightarrow>
          if data = JNull then Inl TypeError
          else if getProp data ''status'' = Some (JStr ''error'')
            then Inl (Error (or_else (getProp data ''message'') (Some (JStr ''Failed to fetch news''))))
          else (case getProp data ''articles'' of
                  Some (JArr articles) \<Rightarrow> map_index (newsApiItem cat) 0 articles
                | _ \<Rightarrow> Inl TypeError))"

subsection \<open>The synthetic source: \<open>getMockNews\<close>\<close>

text \<open>
  The array literal of lines 110-156. It reads \<open>Date.now()\<close> once for each of its five
  items; \<open>now k\<close> is what the \<open>k\<close>-th of these reads returns.
\<close>

definition mockNews :: "(nat \<Rightarrow> nat) \<Rightarrow> MockItem list" where
  "mockNews now =
     [\<lparr>mock_id = ''1'',
       mock_title = ''Major Tech Stocks Rally as AI Sector Shows Strong Growth'',
       mock_description = ''Technology stocks surged today as artificial intelligence companies reported better-than-expected quarterly results.'',
       mock_url = ''#'',
       mock_publishedAt = toISOString (int (now 0) - 3600000),
       mock_source = ''Financial Times'',
       mock_sentiment = ''positive''\<rparr>,
      \<lparr>mock_id = ''2'',
       mock_title = ''Federal Reserve Holds Interest Rates Steady'',
       mock_description = ''The Federal Reserve maintained current interest rates, citing stable inflation and employment data.'',
       mock_url = ''#'',
       mock_publishedAt = toISOString (int (now 1) - 7200000),
       mock_source = ''Reuters'',
       mock_sentiment = ''neutral''\<rparr>,
      \<lparr>mock_id = ''3'',
       mock_title = ''Renewable Energy Stocks Gain Momentum'',
       mock_description = ''Clean energy companies see increased investor interest following new government incentives.'',
       mock_url = ''#'',
       mock_publishedAt = toISOString (int (now 2) - 10800000),
       mock_source = ''Bloomberg'',
       mock_sentiment = ''positive''\<rparr>,
      \<lparr>mock_id = ''4'',
       mock_title = ''Quarterly Earnings Season Begins with Mixed Results'',
       mock_description = ''Early earnings reports show varied performance across different sectors of the market.'',
       mock_url = ''#'',
       mock_publishedAt = toISOString (int (now 3) - 14400000),
       mock_source = ''CNBC'',
       mock_sentiment = ''neutral''\<rparr>,
      \<lparr>mock_id = ''5'',
       mock_title = ''Cryptocurrency Market Shows Signs of Recovery'',
       mock_description = ''Digital assets rebound after recent volatility, with Bitcoin and Ethereum leading gains.'',
       mock_url = ''#'',
       mock_publishedAt = toISOString (int (now 4) - 18000000),
       mock_source = ''CoinDesk'',
       mock_sentiment = ''positive''\<rparr>]"

text \<open>
  Lines 109-173. The function takes no argument: it filters by the component's
  \<open>selectedCategory\<close>, passed here as \<open>selected\<close>.
\<close>

definition getMockNews :: "(nat \<Rightarrow> nat) \<Rightarrow> string \<Rightarrow> NewsItem list" where
  "getMockNews now selected =
     (if selected = ''technology'' then
        map asNewsItem
          (filter (\<lambda>item. string_includes (toLowerCase (mock_title item)) ''tech''
                        \<or> string_includes (toLowerCase (mock_title item)) ''ai''
                        \<or> string_includes (toLowerCase (mock_title item)) ''crypto'')
             (mockNews now))
      else if selected = ''earnings'' then
        map asNewsItem
          (filter (\<lambda>item. string_includes (toLowerCase (mock_title item)) ''earnings''
                        \<or> string_includes (toLowerCase (mock_title item)) ''quarterly'')
             (mockNews now))
      else map asNewsItem (mockNews now))"

subsection \<open>The engine: \<open>fetchNews\<close>\<close>

text \<open>
  What a refresh calls, in the order of the calls: the requests it sends and its use of
  \<open>getMockNews\<close>.
\<close>

datatype call = CallAlphaVantage | CallNewsAPI string | CallMock

text \<open>
  The \<open>try\<close> block of lines 179-196, up to the point where \<open>newsData\<close> is settled:
  the value of \<open>newsData\<close>, or the error thrown out of the block, with the requests
  sent. An error of \<open>fetchAlphaVantageNews\<close> is caught by the inner \<open>catch\<close>; an
  error of \<open>fetchNewsAPI\<close> is not caught here.
\<close>

definition fetchNews_providers ::
  "process_env \<Rightarrow> network \<Rightarrow> string \<Rightarrow> (js_error + NewsItem list) \<times> call list" where
  "fetchNews_providers env net cat =
     (if ALPHA_VANTAGE_API_KEY env \<noteq> [] \<and> ALPHA_VANTAGE_API_KEY env \<noteq> ''demo'' then
        (case fetchAlphaVantageNews env net of
           Inr newsData \<Rightarrow> (Inr newsData, [CallAlphaVantage])
         | Inl e \<Rightarrow>
             if NEWS_API_KEY env \<noteq> []
             then (fetchNewsAPI env net cat, [CallAlphaVantage, CallNewsAPI cat])
             else (Inr [], [CallAlphaVantage]))
      else if NEWS_API_KEY env \<noteq> [] then (fetchNewsAPI env net cat, [CallNewsAPI cat])
      else (Inr [], []))"

text \<open>
  Lines 175-213. \<open>now\<close> gives the clock readings of a call of \<open>getMockNews\<close>, \<open>done\<close>
  is the reading of \<open>new Date()\<close> in line 205. The result is the state once the
  promise of \<open>fetchNews\<close> has settled, with the calls made. The \<open>catch\<close> of line 206
  takes every error of the \<open>try\<close> block; neither it nor the \<open>finally\<close> has an
  operation that can throw, so the promise never rejects.
\<close>

definition fetchNews ::
  "process_env \<Rightarrow> network \<Rightarrow> (nat \<Rightarrow> nat) \<Rightarrow> nat \<Rightarrow> string \<Rightarrow> state \<Rightarrow> state \<times> call list" where
  "fetchNews env net now done cat st =
     (let st1 = st\<lparr>loading := True, error := None\<rparr> in
      case fetchNews_providers env net cat of
        (Inr newsData, calls) \<Rightarrow>
          if length newsData = 0
          then (st1\<lparr>news := getMockNews now (selectedCategory st),
                    lastUpdated := done, loading := False\<rparr>,
                calls @ [CallMock])
          else (st1\<lparr>news := newsData, lastUpdated := done, loading := False\<rparr>, calls)
      | (Inl err, calls) \<Rightarrow>
          (st1\<lparr>error := Some ''Failed to load news. Using sample data.'',
                news := getMockNews now (selectedCategory st),
                loading := False\<rparr>,
           calls @ [CallMock]))"

text \<open>
  The two ways the component starts a refresh: the refresh button (line 268) and the
  effect of lines 215-217 both call \<open>fetchNews(selectedCategory)\<close>; a category button
  (line 285) sets \<open>selectedCategory\<close>, which runs the effect.
\<close>

definition requestRefresh ::
  "process_env \<Rightarrow> network \<Rightarrow> (nat \<Rightarrow> nat) \<Rightarrow> nat \<Rightarrow> state \<Rightarrow> state \<times> call list" where
  "requestRefresh env net now done st = fetchNews env net now done (selectedCategory st) st"

definition selectCategory ::
  "process_env \<Rightarrow> network \<Rightarrow> (nat \<Rightarrow> nat) \<Rightarrow> nat \<Rightarrow> string \<Rightarrow> state \<Rightarrow> state \<times> call list" where
  "selectCategory env net now done cat st =
     requestRefresh env net now done (st\<lparr>selectedCategory := cat\<rparr>)"

text \<open>
  The source keeps no phase. The phase of the specification is read off a refresh as
  follows: \<open>Loading\<close> while \<open>loading\<close> is set; afterwards \<open>DegradedReady\<close> when the
  items shown came from \<open>getMockNews\<close>, and \<open>Ready\<close> when they came from a provider.
\<close>

datatype phase = Idle | Loading | Ready | DegradedReady

definition phase_of :: "state \<times> call list \<Rightarrow> phase" where
  "phase_of r =
     (if loading (fst r) then Loading
      else if CallMock \<in> set (snd r) then DegradedReady
      else Ready)"

subsection \<open>Notions of the specification\<close>

text \<open>
  A provider call that gives no usable content: it throws, or it returns no item.
\<close>

definition fails_or_empty :: "js_error + NewsItem list \<Rightarrow> bool" where
  "fails_or_empty r = (case r of Inl e \<Rightarrow> True | Inr items \<Rightarrow> items = [])"

text \<open>
  The filtering rule in the words of the specification: \<open>s\<close> contains \<open>w\<close> as a
  substring, upper and lower case taken as the same. \<open>title_contains\<close> applies it to
  the title of an item.
\<close>

definition contains_ignoring_case :: "string \<Rightarrow> string \<Rightarrow> bool" where
  "contains_ignoring_case s w =
     (\<exists>pre mid post. s = pre @ mid @ post \<and> toLowerCase mid = toLowerCase w)"

definition title_contains :: "NewsItem \<Rightarrow> string \<Rightarrow> bool" where
  "title_contains item w = (\<exists>s. title item = Some (JStr s) \<and> contains_ignoring_case s w)"

text \<open>
  An item with its \<open>publishedAt\<close> field blanked, to compare items up to that field.
\<close>

definition without_publishedAt :: "NewsItem \<Rightarrow> NewsItem" where
  "without_publishedAt item = item\<lparr>publishedAt := None\<rparr>"

subsection \<open>Inputs used in the examples\<close>

text \<open>
  Three configurations (no credential, only the secondary one, only the primary one),
  a few networks that answer every request alike, two clocks one millisecond apart,
  and the state of a freshly mounted component.
\<close>

definition env_none :: process_env where
  "env_none = \<lparr>REACT_APP_NEWS_API_KEY = None, REACT_APP_ALPHA_VANTAGE_API_KEY = None\<rparr>"

definition env_news_only :: process_env where
  "env_news_only = \<lparr>REACT_APP_NEWS_API_KEY = Some ''N1'', REACT_APP_ALPHA_VANTAGE_API_KEY = None\<rparr>"

definition env_alpha_only :: process_env where
  "env_alpha_only = \<lparr>REACT_APP_NEWS_API_KEY = None, REACT_APP_ALPHA_VANTAGE_API_KEY = Some ''A1''\<rparr>"

definition net_down :: network where
  "net_down u = Inl TypeError"

definition net_empty_object :: network where
  "net_empty_object u = Inr (JObj [])"

definition one_story :: json where
  "one_story = JObj [(''title'', JStr ''Markets open higher''), (''source'', JStr ''Wire'')]"

definition net_one_story :: network where
  "net_one_story u = Inr (JObj [(''feed'', JArr [one_story])])"

definition clock0 :: "nat \<Rightarrow> nat" where
  "clock0 k = 1700000000000"

definition clock1 :: "nat \<Rightarrow> nat" where
  "clock1 k = 1700000000001"

definition st0 :: state where
  "st0 = \<lparr>news = [], loading = True, error = None, selectedCategory = ''general'',
          lastUpdated = 1699999999000\<rparr>"

definition story :: json where
  "story = JObj [(''title'', JStr ''Chip makers rally''), (''source'', JObj [(''name'', JStr ''Wire'')])]"

definition net_eleven :: network where
  "net_eleven u =
     Inr (JObj [(''status'', JStr ''ok''),
                (''articles'', JArr [story, story, story, story, story, story,
                                    story, story, story, story, story])])"

definition net_both :: network where
  "net_both u = Inr (JObj [(''feed'', JArr [one_story]), (''articles'', JArr [story])])"

definition bullish_story :: json where
  "bullish_story = JObj [(''title'', JStr ''Chip makers rally''),
                         (''overall_sentiment_label'', JStr ''Somewhat-Bullish'')]"

definition empty_label_story :: json where
  "empty_label_story = JObj [(''title'', JStr ''Chip makers rally''),
                            (''overall_sentiment_label'', JStr [])]"

subsection \<open>Evaluating the helper functions on literals\<close>

text \<open>
  \<open>toString\<close> unfolds by two conditional equations, a \<open>let\<close> is evaluated argument
  first, and \<open>toLowerCase_char\<close> is tabulated on the letters, so that the simplifier
  computes dates, indices and titles on concrete inputs.
\<close>

lemma toString_small: "n < 10 \<Longrightarrow> toString n = [digit n]"
  by (simp add: toString.simps)

lemma toString_large: "\<not> n < 10 \<Longrightarrow> toString n = toString (n div 10) @ [digit (n mod 10)]"
  by (subst toString.simps) simp

lemma Let_arg_cong: "s = s' \<Longrightarrow> Let s f = Let s' f"
  by simp

lemma replicate_small:
  "replicate 1 x = [x]" "replicate 2 x = [x, x]" "replicate 3 x = [x, x, x]"
  by (simp_all add: numeral_2_eq_2 numeral_3_eq_3)

lemmas iso_eval = toISOString_def civil_from_days_def isoYear_def padStart0_def toString_small
  toString_large digit_def Let_def replicate_small

lemma toISOString_examples:
  "toISOString 1699996400000 = ''2023-11-14T21:13:20.000Z''"
  "toISOString 1699996400001 = ''2023-11-14T21:13:20.001Z''"
  by (simp_all add: iso_eval cong: Let_arg_cong)

lemma toLowerCase_char_table:
  "toLowerCase_char CHR ''A'' = CHR ''a''" "toLowerCase_char CHR ''B'' = CHR ''b''"
  "toLowerCase_char CHR ''C'' = CHR ''c''" "toLowerCase_char CHR ''D'' = CHR ''d''"
  "toLowerCase_char CHR ''E'' = CHR ''e''" "toLowerCase_char CHR ''F'' = CHR ''f''"
  "toLowerCase_char CHR ''G'' = CHR ''g''" "toLowerCase_char CHR ''H'' = CHR ''h''"
  "toLowerCase_char CHR ''I'' = CHR ''i''" "toLowerCase_char CHR ''J'' = CHR ''j''"
  "toLowerCase_char CHR ''K'' = CHR ''k''" "toLowerCase_char CHR ''L'' = CHR ''l''"
  "toLowerCase_char CHR ''M'' = CHR ''m''" "toLowerCase_char CHR ''N'' = CHR ''n''"
  "toLowerCase_char CHR ''O'' = CHR ''o''" "toLowerCase_char CHR ''P'' = CHR ''p''"
  "toLowerCase_char CHR ''Q'' = CHR ''q''" "toLowerCase_char CHR ''R'' = CHR ''r''"
  "toLowerCase_char CHR ''S'' = CHR ''s''" "toLowerCase_char CHR ''T'' = CHR ''t''"
  "toLowerCase_char CHR ''U'' = CHR ''u''" "toLowerCase_char CHR ''V'' = CHR ''v''"
  "toLowerCase_char CHR ''W'' = CHR ''w''" "toLowerCase_char CHR ''X'' = CHR ''x''"
  "toLowerCase_char CHR ''Y'' = CHR ''y''" "toLowerCase_char CHR ''Z'' = CHR ''z''"
  "toLowerCase_char CHR ''a'' = CHR ''a''" "toLowerCase_char CHR ''b'' = CHR ''b''"
  "toLowerCase_char CHR ''c'' = CHR ''c''" "toLowerCase_char CHR ''d'' = CHR ''d''"
  "toLowerCase_char CHR ''e'' = CHR ''e''" "toLowerCase_char CHR ''f'' = CHR ''f''"
  "toLowerCase_char CHR ''g'' = CHR ''g''" "toLowerCase_char CHR ''h'' = CHR ''h''"
  "toLowerCase_char CHR ''i'' = CHR ''i''" "toLowerCase_char CHR ''j'' = CHR ''j''"
  "toLowerCase_char CHR ''k'' = CHR ''k''" "toLowerCase_char CHR ''l'' = CHR ''l''"
  "toLowerCase_char CHR ''m'' = CHR ''m''" "toLowerCase_char CHR ''n'' = CHR ''n''"
  "toLowerCase_char CHR ''o'' = CHR ''o''" "toLowerCase_char CHR ''p'' = CHR ''p''"
  "toLowerCase_char CHR ''q'' = CHR ''q''" "toLowerCase_char CHR ''r'' = CHR ''r''"
  "toLowerCase_char CHR ''s'' = CHR ''s''" "toLowerCase_char CHR ''t'' = CHR ''t''"
  "toLowerCase_char CHR ''u'' = CHR ''u''" "toLowerCase_char CHR ''v'' = CHR ''v''"
  "toLowerCase_char CHR ''w'' = CHR ''w''" "toLowerCase_char CHR ''x'' = CHR ''x''"
  "toLowerCase_char CHR ''y'' = CHR ''y''" "toLowerCase_char CHR ''z'' = CHR ''z''"
  "toLowerCase_char CHR '' '' = CHR '' ''" "toLowerCase_char CHR ''-'' = CHR ''-''"
  by (simp_all add: toLowerCase_char_def)

lemma toLowerCase_length: "length (toLowerCase s) = length s"
  by (simp add: toLowerCase_def)

lemma lower_words:
  "toLowerCase ''tech'' = ''tech''" "toLowerCase ''ai'' = ''ai''" "toLowerCase ''crypto'' = ''crypto''"
  "toLowerCase ''earnings'' = ''earnings''" "toLowerCase ''quarterly'' = ''quarterly''"
  by (simp_all add: toLowerCase_def toLowerCase_char_table)

lemma key_evals:
  "ALPHA_VANTAGE_API_KEY env_none = ''demo''" "NEWS_API_KEY env_none = []"
  "ALPHA_VANTAGE_API_KEY env_news_only = ''demo''" "NEWS_API_KEY env_news_only = ''N1''"
  "ALPHA_VANTAGE_API_KEY env_alpha_only = ''A1''" "NEWS_API_KEY env_alpha_only = []"
  by (simp_all add: ALPHA_VANTAGE_API_KEY_def NEWS_API_KEY_def env_none_def env_news_only_def
      env_alpha_only_def)

subsection \<open>Facts about the providers\<close>

lemma map_index_length: "map_index f i xs = Inr ys \<Longrightarrow> length ys = length xs"
proof (induction xs arbitrary: i ys)
  case Nil
  then show ?case by simp
next
  case (Cons x xs)
  then show ?case by (auto split: sum.splits)
qed

lemma map_index_nth:
  "map_index f i xs = Inr ys \<Longrightarrow> k < length xs \<Longrightarrow> f (xs ! k) (i + k) = Inr (ys ! k)"
proof (induction xs arbitrary: i ys k)
  case Nil
  then show ?case by simp
next
  case (Cons x xs)
  from Cons.prems(1) obtain y ys' where
    y: "f x i = Inr y" and ys': "map_index f (Suc i) xs = Inr ys'" and ys: "ys = y # ys'"
    by (auto split: sum.splits)
  show ?case
  proof (cases k)
    case 0
    with y ys show ?thesis by simp
  next
    case (Suc j)
    with Cons.prems(2) have "j < length xs" by simp
    from Cons.IH [OF ys' this] Suc ys show ?thesis by simp
  qed
qed

lemma fetchAlphaVantageNews_length:
  "fetchAlphaVantageNews env net = Inr items \<Longrightarrow> length items \<le> 10"
  by (auto simp: fetchAlphaVantageNews_def dest!: map_index_length
      split: sum.splits if_splits option.splits json.splits)

lemma fetchAlphaVantageNews_feed:
  assumes "fetchAlphaVantageNews env net = Inr items"
    and "net (alphaVantageUrl env) = Inr data" and "getProp data ''feed'' = Some (JArr feed)"
  shows "map_index alphaVantageItem 0 (take 10 feed) = Inr items"
  using assms by (auto simp: fetchAlphaVantageNews_def split: if_splits)

lemma fetchNewsAPI_key:
  "NEWS_API_KEY env' = NEWS_API_KEY env \<Longrightarrow> fetchNewsAPI env' net cat = fetchNewsAPI env net cat"
  by (simp add: fetchNewsAPI_def newsApiUrl_def)

lemma fetchNewsAPI_articles:
  assumes "fetchNewsAPI env net cat = Inr items"
  shows "\<exists>data articles. net (newsApiUrl env cat) = Inr data
           \<and> getProp data ''articles'' = Some (JArr articles)
           \<and> map_index (newsApiItem cat) 0 articles = Inr items"
  using assms
  by (auto simp: fetchNewsAPI_def split: sum.splits if_splits option.splits json.splits)

lemma net_down_evals:
  "fetchAlphaVantageNews env net_down = Inl TypeError" "fetchNewsAPI env net_down cat = Inl TypeError"
  by (simp_all add: fetchAlphaVantageNews_def fetchNewsAPI_def net_down_def)

lemma net_empty_object_evals:
  "fetchAlphaVantageNews env net_empty_object = Inr []"
  "fetchNewsAPI env net_empty_object cat = Inl TypeError"
  by (simp_all add: fetchAlphaVantageNews_def fetchNewsAPI_def net_empty_object_def)

lemma net_one_story_eval:
  "fetchAlphaVantageNews env net_one_story =
     Inr [\<lparr>item_id = ''0'', title = Some (JStr ''Markets open higher''), description = None,
           url = None, publishedAt = None, source = Some (JStr ''Wire''), category = None,
           imageUrl = None, sentiment = Some (JStr ''neutral'')\<rparr>]"
  by (simp add: fetchAlphaVantageNews_def net_one_story_def one_story_def alphaVantageItem_def
      or_else_def toString.simps digit_def)

lemma net_eleven_eval:
  "\<exists>items. fetchNewsAPI env net_eleven cat = Inr items \<and> length items = 11"
  by (simp add: fetchNewsAPI_def net_eleven_def newsApiItem_def story_def)

subsection \<open>Facts about the synthetic source\<close>

lemma mockNews_length: "length (mockNews now) = 5"
  by (simp add: mockNews_def)

lemma getMockNews_length: "length (getMockNews now selected) \<le> 5"
proof -
  have "length (filter P (mockNews now)) \<le> 5" for P
    using length_filter_le [of P "mockNews now"] by (simp add: mockNews_length)
  then show ?thesis by (simp add: getMockNews_def mockNews_length)
qed

lemma startsWith_prefix: "startsWith s w = prefix w s"
  by (induction s w rule: startsWith.induct) auto

lemma string_includes_sublist: "string_includes s w = sublist w s"
proof (induction s)
  case Nil
  then show ?case by simp
next
  case (Cons d ds)
  then show ?case by (simp add: startsWith_prefix sublist_Cons_right)
qed

lemma contains_ignoring_case_includes:
  "contains_ignoring_case s w = string_includes (toLowerCase s) (toLowerCase w)"
proof
  assume "contains_ignoring_case s w"
  then obtain pre mid post where "s = pre @ mid @ post" "toLowerCase mid = toLowerCase w"
    unfolding contains_ignoring_case_def by blast
  then have "toLowerCase s = toLowerCase pre @ toLowerCase w @ toLowerCase post"
    by (simp add: toLowerCase_def)
  then show "string_includes (toLowerCase s) (toLowerCase w)"
    unfolding string_includes_sublist sublist_def by blast
next
  assume "string_includes (toLowerCase s) (toLowerCase w)"
  then have "sublist (toLowerCase w) (map toLowerCase_char s)"
    by (simp add: string_includes_sublist toLowerCase_def)
  then have "\<exists>mid. sublist mid s \<and> toLowerCase w = map toLowerCase_char mid"
    by (rule sublist_map_rightE)
  then obtain mid where mid: "sublist mid s" "toLowerCase w = map toLowerCase_char mid"
    by blast
  then obtain pre post where "s = pre @ mid @ post"
    unfolding sublist_def by blast
  with mid(2) show "contains_ignoring_case s w"
    unfolding contains_ignoring_case_def toLowerCase_def by metis
qed

lemma title_contains_asNewsItem:
  "title_contains (asNewsItem m) w = string_includes (toLowerCase (mock_title m)) (toLowerCase w)"
  by (simp add: title_contains_def asNewsItem_def contains_ignoring_case_includes)

lemma getMockNews_ids:
  "map item_id (getMockNews now ''technology'') = [''1'', ''3'', ''5'']"
  "map item_id (getMockNews now ''earnings'') = [''4'']"
  "map item_id (getMockNews now ''general'') = [''1'', ''2'', ''3'', ''4'', ''5'']"
  by (simp_all add: getMockNews_def mockNews_def asNewsItem_def toLowerCase_def toLowerCase_char_table)

lemma mockNews_times:
  "map (\<lambda>m. m\<lparr>mock_publishedAt := []\<rparr>) (mockNews now) =
   map (\<lambda>m. m\<lparr>mock_publishedAt := []\<rparr>) (mockNews now')"
  by (simp add: mockNews_def)

lemma without_publishedAt_asNewsItem:
  "without_publishedAt (asNewsItem m) = without_publishedAt (asNewsItem (m\<lparr>mock_publishedAt := []\<rparr>))"
  by (simp add: without_publishedAt_def asNewsItem_def)

lemma filter_mock_times:
  assumes "\<And>m. P (m\<lparr>mock_publishedAt := []\<rparr>) = P m"
  shows "map without_publishedAt (map asNewsItem (filter P (mockNews now))) =
         map without_publishedAt (map asNewsItem (filter P (mockNews now')))"
proof -
  have "map without_publishedAt (map asNewsItem (filter P (mockNews n))) =
        map (\<lambda>m. without_publishedAt (asNewsItem m))
          (filter P (map (\<lambda>m. m\<lparr>mock_publishedAt := []\<rparr>) (mockNews n)))" for n
  proof -
    have "map without_publishedAt (map asNewsItem (filter P (mockNews n))) =
          map (\<lambda>m. without_publishedAt (asNewsItem (m\<lparr>mock_publishedAt := []\<rparr>))) (filter P (mockNews n))"
      using without_publishedAt_asNewsItem by (simp add: comp_def)
    also have "\<dots> = map (\<lambda>m. without_publishedAt (asNewsItem m))
          (filter P (map (\<lambda>m. m\<lparr>mock_publishedAt := []\<rparr>) (mockNews n)))"
      by (simp add: filter_map comp_def assms)
    finally show ?thesis .
  qed
  then show ?thesis by (simp add: mockNews_times [of now now'])
qed

lemma getMockNews_times:
  "map without_publishedAt (getMockNews now selected) = map without_publishedAt (getMockNews now' selected)"
proof -
  have "map without_publishedAt (map asNewsItem (mockNews now)) =
        map without_publishedAt (map asNewsItem (mockNews now'))"
    using filter_mock_times [of "\<lambda>m. True" now now'] by simp
  then show ?thesis
    by (simp add: getMockNews_def filter_mock_times del: map_map)
qed

lemma mock_first_time:
  "publishedAt (hd (getMockNews now ''general'')) = Some (JStr (toISOString (int (now 0) - 3600000)))"
  by (simp add: getMockNews_def mockNews_def asNewsItem_def)

subsection \<open>Facts about the engine\<close>

lemma providers_without_alpha_key:
  "ALPHA_VANTAGE_API_KEY env = ''demo'' \<Longrightarrow>
   fetchNews_providers env net cat =
     (if NEWS_API_KEY env \<noteq> [] then (fetchNewsAPI env net cat, [CallNewsAPI cat])
      else (Inr [], []))"
  by (simp add: fetchNews_providers_def)

lemma providers_alpha_failed:
  "ALPHA_VANTAGE_API_KEY env \<noteq> ''demo'' \<Longrightarrow> fetchAlphaVantageNews env net = Inl e \<Longrightarrow>
   fetchNews_providers env net cat =
     (if NEWS_API_KEY env \<noteq> [] then (fetchNewsAPI env net cat, [CallAlphaVantage, CallNewsAPI cat])
      else (Inr [], [CallAlphaVantage]))"
  by (auto simp: fetchNews_providers_def ALPHA_VANTAGE_API_KEY_def split: option.splits if_splits)

lemma providers_without_news_key:
  "NEWS_API_KEY env = [] \<Longrightarrow>
   \<not> isl (fst (fetchNews_providers env net cat)) \<and> CallNewsAPI cat \<notin> set (snd (fetchNews_providers env net cat))"
  by (auto simp: fetchNews_providers_def split: sum.splits)

lemma providers_result:
  "fst (fetchNews_providers env net cat) = Inr items \<Longrightarrow>
   items = [] \<or> fetchAlphaVantageNews env net = Inr items \<or> fetchNewsAPI env net cat = Inr items"
  by (auto simp: fetchNews_providers_def split: if_splits sum.splits)

lemma fetchNews_state_cong:
  "fst (fetchNews_providers env net cat) = fst (fetchNews_providers env' net' cat') \<Longrightarrow>
   fst (fetchNews env net now done cat st) = fst (fetchNews env' net' now done cat' st)"
  by (cases "fetchNews_providers env net cat"; cases "fetchNews_providers env' net' cat'")
     (auto simp: fetchNews_def Let_def split: sum.splits)

lemma fetchNews_calls:
  "set (snd (fetchNews env net now done cat st)) \<subseteq> insert CallMock (set (snd (fetchNews_providers env net cat)))"
  by (cases "fetchNews_providers env net cat") (auto simp: fetchNews_def Let_def split: sum.splits)

lemma fetchNews_no_throw:
  "\<not> isl (fst (fetchNews_providers env net cat)) \<Longrightarrow>
   error (fst (fetchNews env net now done cat st)) = None
   \<and> lastUpdated (fst (fetchNews env net now done cat st)) = done"
  by (cases "fetchNews_providers env net cat") (auto simp: fetchNews_def Let_def split: sum.splits)

lemma fetchNews_news:
  "news (fst (fetchNews env net now done cat st)) =
     (case fst (fetchNews_providers env net cat) of
        Inr newsData \<Rightarrow> if newsData = [] then getMockNews now (selectedCategory st) else newsData
      | Inl e \<Rightarrow> getMockNews now (selectedCategory st))"
  by (cases "fetchNews_providers env net cat") (auto simp: fetchNews_def Let_def split: sum.splits)

lemma fetchNews_selectedCategory:
  "selectedCategory (fst (fetchNews env net now done cat st)) = selectedCategory st"
  by (cases "fetchNews_providers env net cat") (auto simp: fetchNews_def Let_def split: sum.splits)

lemma skip_alpha:
  assumes "ALPHA_VANTAGE_API_KEY env = ''demo''"
  shows "CallAlphaVantage \<notin> set (snd (fetchNews env net now done cat st))"
proof -
  from assms have "CallAlphaVantage \<notin> set (snd (fetchNews_providers env net cat))"
    by (simp add: providers_without_alpha_key)
  with fetchNews_calls [of env net now "done" cat st] show ?thesis
    by auto
qed

lemma alpha_absent_like_failed:
  assumes "ALPHA_VANTAGE_API_KEY env = ''demo''" and "ALPHA_VANTAGE_API_KEY env' \<noteq> ''demo''"
    and "NEWS_API_KEY env' = NEWS_API_KEY env" and "isl (fetchAlphaVantageNews env' net)"
  shows "fst (fetchNews env net now done cat st) = fst (fetchNews env' net now done cat st)"
proof -
  from assms(4) obtain e where e: "fetchAlphaVantageNews env' net = Inl e"
    by (cases "fetchAlphaVantageNews env' net") auto
  have api: "fetchNewsAPI env' net cat = fetchNewsAPI env net cat"
    using assms(3) by (rule fetchNewsAPI_key)
  have "fst (fetchNews_providers env net cat) = fst (fetchNews_providers env' net cat)"
    unfolding providers_without_alpha_key [OF assms(1)] providers_alpha_failed [OF assms(2) e]
    by (simp add: api assms(3))
  then show ?thesis
    by (rule fetchNews_state_cong)
qed

lemma skip_news:
  assumes k: "NEWS_API_KEY env = []"
  shows "CallNewsAPI cat \<notin> set (snd (fetchNews env net now done cat st))
          \<and> error (fst (fetchNews env net now done cat st)) = None
          \<and> lastUpdated (fst (fetchNews env net now done cat st)) = done"
proof -
  note p = providers_without_news_key [OF k, of net cat]
  from fetchNews_calls [of env net now "done" cat st] p
  have "CallNewsAPI cat \<notin> set (snd (fetchNews env net now done cat st))"
    by auto
  moreover from p have "\<not> isl (fst (fetchNews_providers env net cat))" by simp
  note fetchNews_no_throw [OF this, of now "done" st]
  ultimately show ?thesis by simp
qed

lemma refresh_without_keys:
  "news (fst (requestRefresh env_none net now done st)) = getMockNews now (selectedCategory st)"
  by (simp add: requestRefresh_def fetchNews_news providers_without_alpha_key key_evals)

subsection \<open>C1: a provider whose credential is absent\<close>

text \<open>
  C1, as stated, fails. With no secondary credential the engine sends no request to the
  secondary provider, and the state it ends in differs from the one it ends in when the
  secondary provider is called and fails at run time (here: every request fails): the
  first has no error message and a fresh \<open>lastUpdated\<close>, the second has the message
  and the old \<open>lastUpdated\<close>.
\<close>

theorem absent_credential_counterexample:
  "NEWS_API_KEY env_none = []
   \<and> fetchNewsAPI env_news_only net_down ''general'' = Inl TypeError
   \<and> CallNewsAPI ''general'' \<notin> set (snd (fetchNews env_none net_down clock0 1700000000000 ''general'' st0))
   \<and> fst (fetchNews env_none net_down clock0 1700000000000 ''general'' st0)
       \<noteq> fst (fetchNews env_news_only net_down clock0 1700000000000 ''general'' st0)"
proof -
  have "error (fst (fetchNews env_none net_down clock0 1700000000000 ''general'' st0))
          \<noteq> error (fst (fetchNews env_news_only net_down clock0 1700000000000 ''general'' st0))"
    by (simp add: fetchNews_def fetchNews_providers_def key_evals net_down_evals)
  then have "fst (fetchNews env_none net_down clock0 1700000000000 ''general'' st0)
       \<noteq> fst (fetchNews env_news_only net_down clock0 1700000000000 ''general'' st0)"
    by auto
  then show ?thesis
    by (simp add: fetchNews_def fetchNews_providers_def key_evals net_down_evals)
qed

text \<open>
  C1, as amended. A provider whose credential is absent is skipped: the refresh does not
  call it. For the primary provider (key absent, that is \<open>demo\<close>) the state the refresh
  ends in is the one it ends in when the primary provider is called and fails at run time,
  the secondary credential being the same. With the secondary credential absent the
  refresh never reaches the error handler: it ends with no error message and with
  \<open>lastUpdated\<close> set to the time of resolution.
\<close>

theorem absent_credential_skips_provider:
  "(ALPHA_VANTAGE_API_KEY env = ''demo''
      \<longrightarrow> CallAlphaVantage \<notin> set (snd (fetchNews env net now done cat st)))
   \<and> (ALPHA_VANTAGE_API_KEY env = ''demo'' \<and> ALPHA_VANTAGE_API_KEY env' \<noteq> ''demo''
        \<and> NEWS_API_KEY env' = NEWS_API_KEY env \<and> isl (fetchAlphaVantageNews env' net)
      \<longrightarrow> fst (fetchNews env net now done cat st) = fst (fetchNews env' net now done cat st))
   \<and> (NEWS_API_KEY env = []
      \<longrightarrow> CallNewsAPI cat \<notin> set (snd (fetchNews env net now done cat st))
          \<and> error (fst (fetchNews env net now done cat st)) = None
          \<and> lastUpdated (fst (fetchNews env net now done cat st)) = done)"
proof -
  have p1: "ALPHA_VANTAGE_API_KEY env = ''demo''
      \<longrightarrow> CallAlphaVantage \<notin> set (snd (fetchNews env net now done cat st))"
    by (simp add: skip_alpha)
  have p2: "ALPHA_VANTAGE_API_KEY env = ''demo'' \<and> ALPHA_VANTAGE_API_KEY env' \<noteq> ''demo''
        \<and> NEWS_API_KEY env' = NEWS_API_KEY env \<and> isl (fetchAlphaVantageNews env' net)
      \<longrightarrow> fst (fetchNews env net now done cat st) = fst (fetchNews env' net now done cat st)"
    by (intro impI, elim conjE) (rule alpha_absent_like_failed)
  have p3: "NEWS_API_KEY env = []
      \<longrightarrow> CallNewsAPI cat \<notin> set (snd (fetchNews env net now done cat st))
          \<and> error (fst (fetchNews env net now done cat st)) = None
          \<and> lastUpdated (fst (fetchNews env net now done cat st)) = done"
    by (intro impI) (rule skip_news)
  show ?thesis
    by (rule conjI [OF p1 conjI [OF p2 p3]])
qed

theorem absent_credential_skips_provider_witness:
  "ALPHA_VANTAGE_API_KEY env_none = ''demo'' \<and> ALPHA_VANTAGE_API_KEY env_alpha_only \<noteq> ''demo''
   \<and> NEWS_API_KEY env_alpha_only = NEWS_API_KEY env_none
   \<and> isl (fetchAlphaVantageNews env_alpha_only net_down)
   \<and> NEWS_API_KEY env_none = []
   \<and> CallAlphaVantage \<notin> set (snd (fetchNews env_none net_down clock0 1700000000000 ''general'' st0))
   \<and> fst (fetchNews env_none net_down clock0 1700000000000 ''general'' st0)
       = fst (fetchNews env_alpha_only net_down clock0 1700000000000 ''general'' st0)
   \<and> CallNewsAPI ''general'' \<notin> set (snd (fetchNews env_none net_down clock0 1700000000000 ''general'' st0))
   \<and> error (fst (fetchNews env_none net_down clock0 1700000000000 ''general'' st0)) = None
   \<and> lastUpdated (fst (fetchNews env_none net_down clock0 1700000000000 ''general'' st0)) = 1700000000000"
proof -
  have h1: "ALPHA_VANTAGE_API_KEY env_none = ''demo''" by (simp add: key_evals)
  have h2: "ALPHA_VANTAGE_API_KEY env_alpha_only \<noteq> ''demo''" by (simp add: key_evals)
  have h3: "NEWS_API_KEY env_alpha_only = NEWS_API_KEY env_none" by (simp add: key_evals)
  have h4: "isl (fetchAlphaVantageNews env_alpha_only net_down)" by (simp add: net_down_evals)
  have h5: "NEWS_API_KEY env_none = []" by (simp add: key_evals)
  from absent_credential_skips_provider
    [of env_none net_down clock0 1700000000000 "''general''" st0 env_alpha_only]
    h1 h2 h3 h4 h5
  show ?thesis by blast
qed

subsection \<open>C2: both providers fail or return nothing\<close>

text \<open>
  C2, as stated, fails. The primary provider is configured and answers with an object
  that has no feed, so it returns no item; the secondary provider would fail. The refresh
  shows the synthetic items, but the error message is not the fixed string: it is absent.
\<close>

theorem both_unusable_message_counterexample:
  "selectedCategory st0 = ''general''
   \<and> fails_or_empty (fetchAlphaVantageNews env_alpha_only net_empty_object)
   \<and> fails_or_empty (fetchNewsAPI env_alpha_only net_empty_object ''general'')
   \<and> error (fst (fetchNews env_alpha_only net_empty_object clock0 1700000000000 ''general'' st0))
       \<noteq> Some ''Failed to load news. Using sample data.''"
  by (simp add: fetchNews_def fetchNews_providers_def key_evals net_empty_object_evals
      fails_or_empty_def st0_def)

text \<open>
  C2, as amended. When each provider fails or returns nothing (an absent credential
  counting as failing), a refresh for the selected category ends in \<open>DegradedReady\<close>
  with the items of \<open>getMockNews\<close> for that category. The error message is the fixed
  string exactly when the secondary provider was called and threw; otherwise there is
  no error message.
\<close>

theorem both_unusable_is_degraded:
  assumes "selectedCategory st = cat"
    and "ALPHA_VANTAGE_API_KEY env = ''demo'' \<or> fails_or_empty (fetchAlphaVantageNews env net)"
    and "NEWS_API_KEY env = [] \<or> fails_or_empty (fetchNewsAPI env net cat)"
  shows "phase_of (fetchNews env net now done cat st) = DegradedReady
         \<and> news (fst (fetchNews env net now done cat st)) = getMockNews now cat
         \<and> error (fst (fetchNews env net now done cat st)) =
             (if CallNewsAPI cat \<in> set (snd (fetchNews env net now done cat st))
                 \<and> isl (fetchNewsAPI env net cat)
              then Some ''Failed to load news. Using sample data.'' else None)"
  using assms
  by (auto simp: fetchNews_def fetchNews_providers_def phase_of_def fails_or_empty_def Let_def
      split: prod.splits sum.splits if_splits)

theorem both_unusable_is_degraded_witness:
  "selectedCategory st0 = ''general''
   \<and> fails_or_empty (fetchAlphaVantageNews env_news_only net_down)
   \<and> fails_or_empty (fetchNewsAPI env_news_only net_down ''general'')
   \<and> phase_of (fetchNews env_news_only net_down clock0 1700000000000 ''general'' st0) = DegradedReady
   \<and> news (fst (fetchNews env_news_only net_down clock0 1700000000000 ''general'' st0))
       = getMockNews clock0 ''general''
   \<and> error (fst (fetchNews env_news_only net_down clock0 1700000000000 ''general'' st0))
       = Some ''Failed to load news. Using sample data.''"
proof -
  have h1: "selectedCategory st0 = ''general''" by (simp add: st0_def)
  have f2: "fails_or_empty (fetchAlphaVantageNews env_news_only net_down)"
    by (simp add: net_down_evals fails_or_empty_def)
  have f3: "fails_or_empty (fetchNewsAPI env_news_only net_down ''general'')"
    by (simp add: net_down_evals fails_or_empty_def)
  from f2 have h2: "ALPHA_VANTAGE_API_KEY env_news_only = ''demo''
      \<or> fails_or_empty (fetchAlphaVantageNews env_news_only net_down)" by (rule disjI2)
  from f3 have h3: "NEWS_API_KEY env_news_only = []
      \<or> fails_or_empty (fetchNewsAPI env_news_only net_down ''general'')" by (rule disjI2)
  have called: "CallNewsAPI ''general'' \<in> set (snd (fetchNews env_news_only net_down clock0 1700000000000 ''general'' st0))"
    by (simp add: fetchNews_def fetchNews_providers_def key_evals net_down_evals)
  from both_unusable_is_degraded [OF h1 h2 h3, of clock0 1700000000000] h1 f2 f3 called
  show ?thesis by (simp add: net_down_evals)
qed

subsection \<open>C3: no error leaves the engine\<close>

text \<open>
  C3. Whatever the configuration and whatever the network answers (a rejected
  \<open>fetch\<close>, an unparsable body, an error envelope, a body of any other shape, an empty
  result), \<open>fetchNews\<close> settles: the model is a total function, every error of the
  providers is a value taken by one of its branches, \<open>loading\<close> is off at the end and
  the phase is \<open>Ready\<close> or \<open>DegradedReady\<close>. An error that leaves the \<open>try\<close> block
  is turned into \<open>DegradedReady\<close> and the fixed message.
\<close>

theorem fetchNews_settles:
  "\<not> loading (fst (fetchNews env net now done cat st))
   \<and> phase_of (fetchNews env net now done cat st) \<in> {Ready, DegradedReady}
   \<and> (isl (fst (fetchNews_providers env net cat)) \<longrightarrow>
        phase_of (fetchNews env net now done cat st) = DegradedReady
        \<and> error (fst (fetchNews env net now done cat st))
            = Some ''Failed to load news. Using sample data.'')"
  by (cases "fetchNews_providers env net cat")
     (auto simp: fetchNews_def phase_of_def Let_def split: sum.splits)

theorem fetchNews_settles_witness:
  "isl (fst (fetchNews_providers env_news_only net_down ''general''))
   \<and> \<not> loading (fst (fetchNews env_news_only net_down clock0 1700000000000 ''general'' st0))
   \<and> phase_of (fetchNews env_news_only net_down clock0 1700000000000 ''general'' st0) = DegradedReady
   \<and> error (fst (fetchNews env_news_only net_down clock0 1700000000000 ''general'' st0))
       = Some ''Failed to load news. Using sample data.''"
proof -
  have h: "isl (fst (fetchNews_providers env_news_only net_down ''general''))"
    by (simp add: fetchNews_providers_def key_evals net_down_evals)
  with fetchNews_settles [of env_news_only net_down clock0 1700000000000 "''general''" st0]
  show ?thesis by blast
qed

subsection \<open>C4: missing upstream fields\<close>

text \<open>
  C4, as stated, fails. An item of the primary feed without a sentiment label is
  normalised to an item whose sentiment is \<open>neutral\<close>, not absent.
\<close>

theorem missing_sentiment_counterexample:
  "getProp one_story ''overall_sentiment_label'' = None
   \<and> map_sum id sentiment (alphaVantageItem one_story 0) = Inr (Some (JStr ''neutral''))
   \<and> map_sum id sentiment (alphaVantageItem one_story 0) \<noteq> Inr None"
  by (simp add: alphaVantageItem_def one_story_def or_else_def)

text \<open>
  C4, as amended. In the items of both providers a missing upstream field gives
  \<open>undefined\<close> in the canonical item, except for the sentiment of the primary
  provider: a missing sentiment label gives the default \<open>neutral\<close>. The secondary
  provider never sets a sentiment; its \<open>source\<close> is the name inside the upstream
  \<open>source\<close> object.
\<close>

theorem missing_fields:
  "(alphaVantageItem j i = Inr item \<longrightarrow>
      (getProp j ''title'' = None \<longrightarrow> title item = None)
      \<and> (getProp j ''summary'' = None \<longrightarrow> description item = None)
      \<and> (getProp j ''url'' = None \<longrightarrow> url item = None)
      \<and> (getProp j ''time_published'' = None \<longrightarrow> publishedAt item = None)
      \<and> (getProp j ''source'' = None \<longrightarrow> source item = None)
      \<and> (getProp j ''banner_image'' = None \<longrightarrow> imageUrl item = None)
      \<and> (getProp j ''overall_sentiment_label'' = None \<longrightarrow> sentiment item = Some (JStr ''neutral'')))
   \<and> (newsApiItem cat a i = Inr item' \<longrightarrow>
      (getProp a ''title'' = None \<longrightarrow> title item' = None)
      \<and> (getProp a ''description'' = None \<longrightarrow> description item' = None)
      \<and> (getProp a ''url'' = None \<longrightarrow> url item' = None)
      \<and> (getProp a ''publishedAt'' = None \<longrightarrow> publishedAt item' = None)
      \<and> (getProp a ''urlToImage'' = None \<longrightarrow> imageUrl item' = None)
      \<and> (getProp a ''source'' = Some src \<and> getProp src ''name'' = None \<longrightarrow> source item' = None)
      \<and> sentiment item' = None)"
proof -
  have p: "alphaVantageItem j i = Inr item \<longrightarrow>
      (getProp j ''title'' = None \<longrightarrow> title item = None)
      \<and> (getProp j ''summary'' = None \<longrightarrow> description item = None)
      \<and> (getProp j ''url'' = None \<longrightarrow> url item = None)
      \<and> (getProp j ''time_published'' = None \<longrightarrow> publishedAt item = None)
      \<and> (getProp j ''source'' = None \<longrightarrow> source item = None)
      \<and> (getProp j ''banner_image'' = None \<longrightarrow> imageUrl item = None)
      \<and> (getProp j ''overall_sentiment_label'' = None \<longrightarrow> sentiment item = Some (JStr ''neutral''))"
    by (auto simp: alphaVantageItem_def or_else_def split: if_splits sum.splits)
  have s: "newsApiItem cat a i = Inr item' \<longrightarrow>
      (getProp a ''title'' = None \<longrightarrow> title item' = None)
      \<and> (getProp a ''description'' = None \<longrightarrow> description item' = None)
      \<and> (getProp a ''url'' = None \<longrightarrow> url item' = None)
      \<and> (getProp a ''publishedAt'' = None \<longrightarrow> publishedAt item' = None)
      \<and> (getProp a ''urlToImage'' = None \<longrightarrow> imageUrl item' = None)
      \<and> (getProp a ''source'' = Some src \<and> getProp src ''name'' = None \<longrightarrow> source item' = None)
      \<and> sentiment item' = None"
    by (auto simp: newsApiItem_def split: if_splits option.splits json.splits)
  show ?thesis by (rule conjI [OF p s])
qed

theorem missing_fields_witness:
  "alphaVantageItem (JObj []) 0 =
     Inr \<lparr>item_id = ''0'', title = None, description = None, url = None, publishedAt = None,
          source = None, category = None, imageUrl = None, sentiment = Some (JStr ''neutral'')\<rparr>
   \<and> newsApiItem ''general'' (JObj [(''source'', JObj [])]) 0 =
     Inr \<lparr>item_id = ''0'', title = None, description = None, url = None, publishedAt = None,
          source = None, category = Some (JStr ''general''), imageUrl = None, sentiment = None\<rparr>
   \<and> getProp (JObj []) ''overall_sentiment_label'' = None
   \<and> sentiment \<lparr>item_id = ''0'', title = None, description = None, url = None, publishedAt = None,
          source = None, category = None, imageUrl = None, sentiment = Some (JStr ''neutral'')\<rparr>
        = Some (JStr ''neutral'')"
proof -
  have h1: "alphaVantageItem (JObj []) 0 =
     Inr \<lparr>item_id = ''0'', title = None, description = None, url = None, publishedAt = None,
          source = None, category = None, imageUrl = None, sentiment = Some (JStr ''neutral'')\<rparr>"
    by (simp add: alphaVantageItem_def or_else_def toString_small digit_def)
  have h2: "newsApiItem ''general'' (JObj [(''source'', JObj [])]) 0 =
     Inr \<lparr>item_id = ''0'', title = None, description = None, url = None, publishedAt = None,
          source = None, category = Some (JStr ''general''), imageUrl = None, sentiment = None\<rparr>"
    by (simp add: newsApiItem_def toString_small digit_def)
  have h3: "getProp (JObj []) ''overall_sentiment_label'' = None" by simp
  from missing_fields [of "JObj []" 0
      "\<lparr>item_id = ''0'', title = None, description = None, url = None, publishedAt = None,
          source = None, category = None, imageUrl = None, sentiment = Some (JStr ''neutral'')\<rparr>"
      "''general''" "JObj [(''source'', JObj [])]"
      "\<lparr>item_id = ''0'', title = None, description = None, url = None, publishedAt = None,
          source = None, category = Some (JStr ''general''), imageUrl = None, sentiment = None\<rparr>"
      "JObj []"]
    h1 h2 h3
  show ?thesis by simp
qed

subsection \<open>C5: when lastUpdated is set\<close>

text \<open>
  C5, as stated, fails. With only the secondary provider configured and every request
  failing, the refresh ends in \<open>DegradedReady\<close> and \<open>lastUpdated\<close> keeps its old
  value instead of the time of resolution.
\<close>

theorem lastUpdated_stale_counterexample:
  "phase_of (fetchNews env_news_only net_down clock0 1700000000000 ''general'' st0) = DegradedReady
   \<and> lastUpdated (fst (fetchNews env_news_only net_down clock0 1700000000000 ''general'' st0))
       \<noteq> 1700000000000"
  by (simp add: fetchNews_def fetchNews_providers_def phase_of_def key_evals net_down_evals st0_def)

text \<open>
  C5, as amended. A refresh that ends without error message sets \<open>lastUpdated\<close> to
  the time of resolution; this covers every refresh that ends in \<open>Ready\<close>. A refresh
  that ends with the error message (the secondary provider threw) leaves
  \<open>lastUpdated\<close> as it was.
\<close>

theorem lastUpdated_after_refresh:
  "lastUpdated (fst (fetchNews env net now done cat st)) =
     (if error (fst (fetchNews env net now done cat st)) = None then done else lastUpdated st)
   \<and> (phase_of (fetchNews env net now done cat st) = Ready
        \<longrightarrow> lastUpdated (fst (fetchNews env net now done cat st)) = done)"
  by (auto simp: fetchNews_def phase_of_def Let_def split: prod.splits sum.splits)

theorem lastUpdated_after_refresh_witness:
  "phase_of (fetchNews env_alpha_only net_one_story clock0 1700000000000 ''general'' st0) = Ready
   \<and> lastUpdated (fst (fetchNews env_alpha_only net_one_story clock0 1700000000000 ''general'' st0))
       = 1700000000000"
proof -
  have ready: "phase_of (fetchNews env_alpha_only net_one_story clock0 1700000000000 ''general'' st0) = Ready"
    by (simp add: fetchNews_def fetchNews_providers_def phase_of_def key_evals net_one_story_eval)
  with lastUpdated_after_refresh [of env_alpha_only net_one_story clock0 1700000000000 "''general''" st0]
  show ?thesis by simp
qed

subsection \<open>C6: at most ten items\<close>

text \<open>
  C6, as stated, fails. The secondary provider does not cut its result: when the
  upstream answers with eleven articles, the refresh ends with eleven items.
\<close>

theorem eleven_articles_counterexample:
  "length (news (fst (fetchNews env_news_only net_eleven clock0 1700000000000 ''general'' st0))) = 11
   \<and> \<not> length (news (fst (fetchNews env_news_only net_eleven clock0 1700000000000 ''general'' st0))) \<le> 10"
proof -
  obtain items where items: "fetchNewsAPI env_news_only net_eleven ''general'' = Inr items"
    and len: "length items = 11"
    using net_eleven_eval by blast
  from len have "items \<noteq> []" by auto
  with items have "news (fst (fetchNews env_news_only net_eleven clock0 1700000000000 ''general'' st0)) = items"
    by (simp add: fetchNews_news fetchNews_providers_def key_evals)
  with len show ?thesis by simp
qed

text \<open>
  C6, as amended. If the answer to the secondary provider's request carries at most ten
  articles, a refresh ends with at most ten items. The primary provider returns the
  normalised first ten entries of the feed, in the order of the feed, however long the
  feed is.
\<close>

theorem items_at_most_ten:
  assumes "\<And>data articles. net (newsApiUrl env cat) = Inr data \<Longrightarrow>
             getProp data ''articles'' = Some (JArr articles) \<Longrightarrow> length articles \<le> 10"
  shows "length (news (fst (fetchNews env net now done cat st))) \<le> 10
         \<and> (fetchAlphaVantageNews env net = Inr items \<and> net (alphaVantageUrl env) = Inr response
              \<and> getProp response ''feed'' = Some (JArr feed)
            \<longrightarrow> length items = min 10 (length feed)
                \<and> (\<forall>k < length items. alphaVantageItem (feed ! k) k = Inr (items ! k)))"
proof -
  have mock: "length (getMockNews now (selectedCategory st)) \<le> 10"
    using getMockNews_length [of now "selectedCategory st"] by simp
  have total: "length (news (fst (fetchNews env net now done cat st))) \<le> 10"
  proof (cases "fst (fetchNews_providers env net cat)")
    case (Inl e)
    with mock show ?thesis by (simp add: fetchNews_news)
  next
    case (Inr newsData)
    from providers_result [OF Inr] have "length newsData \<le> 10"
    proof (elim disjE)
      assume "newsData = []"
      then show ?thesis by simp
    next
      assume "fetchAlphaVantageNews env net = Inr newsData"
      then show ?thesis by (rule fetchAlphaVantageNews_length)
    next
      assume "fetchNewsAPI env net cat = Inr newsData"
      then obtain data articles where d: "net (newsApiUrl env cat) = Inr data"
        and a: "getProp data ''articles'' = Some (JArr articles)"
        and m: "map_index (newsApiItem cat) 0 articles = Inr newsData"
        using fetchNewsAPI_articles by blast
      from d a have "length articles \<le> 10" by (rule assms)
      with map_index_length [OF m] show ?thesis by simp
    qed
    with Inr mock show ?thesis by (simp add: fetchNews_news)
  qed
  have primary: "fetchAlphaVantageNews env net = Inr items \<and> net (alphaVantageUrl env) = Inr response
              \<and> getProp response ''feed'' = Some (JArr feed)
            \<longrightarrow> length items = min 10 (length feed)
                \<and> (\<forall>k < length items. alphaVantageItem (feed ! k) k = Inr (items ! k))"
  proof (intro impI, elim conjE)
    assume a: "fetchAlphaVantageNews env net = Inr items" "net (alphaVantageUrl env) = Inr response"
      "getProp response ''feed'' = Some (JArr feed)"
    note m = fetchAlphaVantageNews_feed [OF a]
    from map_index_length [OF m] have len: "length items = min 10 (length feed)"
      by (simp add: min.commute)
    have "alphaVantageItem (feed ! k) k = Inr (items ! k)" if "k < length items" for k
    proof -
      from that len have k: "k < length (take 10 feed)" by simp
      from map_index_nth [OF m k] k show ?thesis by simp
    qed
    with len show "length items = min 10 (length feed)
                \<and> (\<forall>k < length items. alphaVantageItem (feed ! k) k = Inr (items ! k))"
      by blast
  qed
  show ?thesis by (rule conjI [OF total primary])
qed

theorem items_at_most_ten_witness:
  "net_both (newsApiUrl env_news_only ''general'')
     = Inr (JObj [(''feed'', JArr [one_story]), (''articles'', JArr [story])])
   \<and> length [story] \<le> 10
   \<and> length (news (fst (fetchNews env_news_only net_both clock0 1700000000000 ''general'' st0))) \<le> 10
   \<and> fetchAlphaVantageNews env_news_only net_both =
       Inr [\<lparr>item_id = ''0'', title = Some (JStr ''Markets open higher''), description = None,
             url = None, publishedAt = None, source = Some (JStr ''Wire''), category = None,
             imageUrl = None, sentiment = Some (JStr ''neutral'')\<rparr>]
   \<and> alphaVantageItem ([one_story] ! 0) 0 =
       Inr \<lparr>item_id = ''0'', title = Some (JStr ''Markets open higher''), description = None,
            url = None, publishedAt = None, source = Some (JStr ''Wire''), category = None,
            imageUrl = None, sentiment = Some (JStr ''neutral'')\<rparr>"
proof -
  have h: "length articles \<le> 10"
    if "net_both (newsApiUrl env_news_only ''general'') = Inr data"
      and "getProp data ''articles'' = Some (JArr articles)" for data articles
    using that by (auto simp: net_both_def)
  have p: "fetchAlphaVantageNews env_news_only net_both =
       Inr [\<lparr>item_id = ''0'', title = Some (JStr ''Markets open higher''), description = None,
             url = None, publishedAt = None, source = Some (JStr ''Wire''), category = None,
             imageUrl = None, sentiment = Some (JStr ''neutral'')\<rparr>]"
    by (simp add: fetchAlphaVantageNews_def net_both_def one_story_def alphaVantageItem_def
        or_else_def toString_small digit_def)
  have r: "net_both (alphaVantageUrl env_news_only)
             = Inr (JObj [(''feed'', JArr [one_story]), (''articles'', JArr [story])])"
    by (simp add: net_both_def)
  from items_at_most_ten
    [of net_both env_news_only "''general''" clock0 1700000000000 st0
      "[\<lparr>item_id = ''0'', title = Some (JStr ''Markets open higher''), description = None,
             url = None, publishedAt = None, source = Some (JStr ''Wire''), category = None,
             imageUrl = None, sentiment = Some (JStr ''neutral'')\<rparr>]"
      "JObj [(''feed'', JArr [one_story]), (''articles'', JArr [story])]" "[one_story]", OF h]
    p r
  show ?thesis by (simp add: net_both_def)
qed

subsection \<open>C7: the primary provider succeeds\<close>

text \<open>
  C7. If a refresh calls the primary provider and the call returns at least one item,
  the refresh ends in \<open>Ready\<close> with exactly these items, in their order; the only call
  made is the one to the primary provider, so neither the secondary provider nor
  \<open>getMockNews\<close> is used.
\<close>

theorem primary_success_is_ready:
  assumes "CallAlphaVantage \<in> set (snd (fetchNews env net now done cat st))"
    and "fetchAlphaVantageNews env net = Inr items" and "items \<noteq> []"
  shows "phase_of (fetchNews env net now done cat st) = Ready
         \<and> news (fst (fetchNews env net now done cat st)) = items
         \<and> snd (fetchNews env net now done cat st) = [CallAlphaVantage]
         \<and> error (fst (fetchNews env net now done cat st)) = None
         \<and> lastUpdated (fst (fetchNews env net now done cat st)) = done"
  using assms
  by (auto simp: fetchNews_def fetchNews_providers_def phase_of_def Let_def
      split: prod.splits sum.splits if_splits)

theorem primary_success_is_ready_witness:
  "CallAlphaVantage \<in> set (snd (fetchNews env_alpha_only net_one_story clock0 1700000000000 ''general'' st0))
   \<and> phase_of (fetchNews env_alpha_only net_one_story clock0 1700000000000 ''general'' st0) = Ready
   \<and> map title (news (fst (fetchNews env_alpha_only net_one_story clock0 1700000000000 ''general'' st0)))
       = [Some (JStr ''Markets open higher'')]
   \<and> snd (fetchNews env_alpha_only net_one_story clock0 1700000000000 ''general'' st0) = [CallAlphaVantage]"
proof -
  have called: "CallAlphaVantage \<in> set (snd (fetchNews env_alpha_only net_one_story clock0 1700000000000 ''general'' st0))"
    by (simp add: fetchNews_def fetchNews_providers_def key_evals net_one_story_eval)
  from primary_success_is_ready [OF called net_one_story_eval] called show ?thesis
    by simp
qed

subsection \<open>C8: the synthetic source\<close>

text \<open>
  C8. \<open>getMockNews\<close> is a total function with no error to return. For
  \<open>technology\<close> it gives exactly the items of the dataset whose title contains
  \<open>tech\<close>, \<open>ai\<close> or \<open>crypto\<close>, ignoring case (items 1, 3 and 5: the title of
  item 3 has \<open>Gain\<close>); for \<open>earnings\<close> exactly those whose title contains
  \<open>earnings\<close> or \<open>quarterly\<close> (item 4); for \<open>general\<close> all five items, in the
  order of the dataset.
\<close>

theorem getMockNews_filter:
  "getMockNews now ''technology'' =
     filter (\<lambda>item. title_contains item ''tech'' \<or> title_contains item ''ai''
                     \<or> title_contains item ''crypto'')
       (map asNewsItem (mockNews now))
   \<and> getMockNews now ''earnings'' =
     filter (\<lambda>item. title_contains item ''earnings'' \<or> title_contains item ''quarterly'')
       (map asNewsItem (mockNews now))
   \<and> getMockNews now ''general'' = map asNewsItem (mockNews now)
   \<and> length (mockNews now) = 5
   \<and> map item_id (getMockNews now ''technology'') = [''1'', ''3'', ''5'']
   \<and> map item_id (getMockNews now ''earnings'') = [''4'']
   \<and> map item_id (getMockNews now ''general'') = [''1'', ''2'', ''3'', ''4'', ''5'']"
proof -
  have tech: "getMockNews now ''technology'' =
     filter (\<lambda>item. title_contains item ''tech'' \<or> title_contains item ''ai''
                     \<or> title_contains item ''crypto'')
       (map asNewsItem (mockNews now))"
    by (simp add: getMockNews_def filter_map comp_def title_contains_asNewsItem lower_words)
  have earn: "getMockNews now ''earnings'' =
     filter (\<lambda>item. title_contains item ''earnings'' \<or> title_contains item ''quarterly'')
       (map asNewsItem (mockNews now))"
    by (simp add: getMockNews_def filter_map comp_def title_contains_asNewsItem lower_words)
  have gen: "getMockNews now ''general'' = map asNewsItem (mockNews now)"
    by (simp add: getMockNews_def)
  from tech earn gen mockNews_length [of now] getMockNews_ids [of now] show ?thesis
    by (intro conjI)
qed

subsection \<open>C9: refreshing twice\<close>

text \<open>
  C9, as stated, fails. With no credential both refreshes show the synthetic items,
  whose \<open>publishedAt\<close> is computed from the clock: one millisecond later the first
  item carries another \<open>publishedAt\<close>, so the two item sequences differ.
\<close>

theorem refresh_twice_counterexample:
  "publishedAt (hd (news (fst (requestRefresh env_none net_down clock0 1700000000000 st0))))
     = Some (JStr ''2023-11-14T21:13:20.000Z'')
   \<and> publishedAt (hd (news (fst (requestRefresh env_none net_down clock1 1700000000001
         (fst (requestRefresh env_none net_down clock0 1700000000000 st0))))))
     = Some (JStr ''2023-11-14T21:13:20.001Z'')
   \<and> news (fst (requestRefresh env_none net_down clock1 1700000000001
         (fst (requestRefresh env_none net_down clock0 1700000000000 st0))))
     \<noteq> news (fst (requestRefresh env_none net_down clock0 1700000000000 st0))"
proof -
  have sel: "selectedCategory (fst (requestRefresh env_none net_down clock0 1700000000000 st0)) = ''general''"
    by (simp add: requestRefresh_def fetchNews_selectedCategory st0_def)
  have first: "publishedAt (hd (news (fst (requestRefresh env_none net_down clock0 1700000000000 st0))))
     = Some (JStr ''2023-11-14T21:13:20.000Z'')"
    by (simp add: refresh_without_keys st0_def mock_first_time clock0_def toISOString_examples)
  have second: "publishedAt (hd (news (fst (requestRefresh env_none net_down clock1 1700000000001
         (fst (requestRefresh env_none net_down clock0 1700000000000 st0))))))
     = Some (JStr ''2023-11-14T21:13:20.001Z'')"
    by (simp add: refresh_without_keys sel mock_first_time clock1_def toISOString_examples)
  from first second have "news (fst (requestRefresh env_none net_down clock1 1700000000001
         (fst (requestRefresh env_none net_down clock0 1700000000000 st0))))
     \<noteq> news (fst (requestRefresh env_none net_down clock0 1700000000000 st0))"
    by auto
  with first second show ?thesis by (intro conjI)
qed

text \<open>
  C9, as amended. Two refreshes in succession, with the same category, configuration
  and network, end with item sequences that agree in order and in every field other
  than \<open>publishedAt\<close>. They agree in \<open>publishedAt\<close> too when the items come from a
  provider, or when \<open>getMockNews\<close> reads the same clock values in both refreshes.
\<close>

theorem refresh_twice:
  "map without_publishedAt
     (news (fst (requestRefresh env net now2 done2 (fst (requestRefresh env net now1 done1 st)))))
     = map without_publishedAt (news (fst (requestRefresh env net now1 done1 st)))
   \<and> (phase_of (requestRefresh env net now1 done1 st) = Ready \<or> now2 = now1
        \<longrightarrow> news (fst (requestRefresh env net now2 done2 (fst (requestRefresh env net now1 done1 st))))
            = news (fst (requestRefresh env net now1 done1 st)))"
proof -
  let ?c = "selectedCategory st"
  let ?r1 = "fetchNews env net now1 done1 ?c st"
  let ?r2 = "fetchNews env net now2 done2 ?c (fst ?r1)"
  have r1: "requestRefresh env net now1 done1 st = ?r1"
    by (simp add: requestRefresh_def)
  have r2: "requestRefresh env net now2 done2 (fst ?r1) = ?r2"
    by (simp add: requestRefresh_def fetchNews_selectedCategory)
  have stripped: "map without_publishedAt (news (fst ?r2)) = map without_publishedAt (news (fst ?r1))"
    using getMockNews_times [of now2 ?c now1]
    by (simp add: fetchNews_news fetchNews_selectedCategory split: sum.splits)
  have same_clock: "news (fst ?r2) = news (fst ?r1)" if "now2 = now1"
    using that by (simp add: fetchNews_news fetchNews_selectedCategory split: sum.splits)
  have ready: "news (fst ?r2) = news (fst ?r1)" if "phase_of ?r1 = Ready"
  proof (cases "fetchNews_providers env net ?c")
    case (Pair res calls)
    with that show ?thesis
      by (auto simp: fetchNews_news fetchNews_selectedCategory fetchNews_def phase_of_def Let_def
          split: sum.splits if_splits)
  qed
  from stripped same_clock ready show ?thesis
    unfolding r1 r2 by blast
qed

theorem refresh_twice_witness:
  "phase_of (requestRefresh env_alpha_only net_one_story clock0 1700000000000 st0) = Ready
   \<and> news (fst (requestRefresh env_alpha_only net_one_story clock0 1700000000001
         (fst (requestRefresh env_alpha_only net_one_story clock0 1700000000000 st0))))
     = news (fst (requestRefresh env_alpha_only net_one_story clock0 1700000000000 st0))"
proof -
  have ready: "phase_of (requestRefresh env_alpha_only net_one_story clock0 1700000000000 st0) = Ready"
    by (simp add: requestRefresh_def fetchNews_def fetchNews_providers_def phase_of_def key_evals
        net_one_story_eval)
  with refresh_twice [of env_alpha_only net_one_story clock0 1700000000001 clock0 1700000000000 st0]
  show ?thesis by blast
qed

subsection \<open>C10: the sentiment label is passed through\<close>

text \<open>
  C10, as stated, fails. An item of the primary feed that carries the empty string as
  its sentiment label is normalised to the sentiment \<open>neutral\<close>, which is not the
  label in lower case.
\<close>

theorem empty_label_counterexample:
  "getProp empty_label_story ''overall_sentiment_label'' = Some (JStr [])
   \<and> map_sum id sentiment (alphaVantageItem empty_label_story 0) = Inr (Some (JStr ''neutral''))
   \<and> map_sum id sentiment (alphaVantageItem empty_label_story 0) \<noteq> Inr (Some (JStr (toLowerCase [])))"
  by (simp add: alphaVantageItem_def empty_label_story_def or_else_def toLowerCase_def)

text \<open>
  C10, as amended. Whenever the sentiment label of an upstream item is a non-empty
  string, the sentiment of the canonical item is that label in lower case, whatever the
  label is: \<open>Somewhat-Bullish\<close> gives \<open>somewhat-bullish\<close>, which is none of
  \<open>positive\<close>, \<open>negative\<close>, \<open>neutral\<close>. The result is a function of the label.
\<close>

theorem sentiment_passthrough:
  assumes "getProp j ''overall_sentiment_label'' = Some (JStr l)" and "l \<noteq> []"
  shows "map_sum id sentiment (alphaVantageItem j i) = Inr (Some (JStr (toLowerCase l)))
         \<and> toLowerCase ''Somewhat-Bullish'' = ''somewhat-bullish''
         \<and> ''somewhat-bullish'' \<notin> {''positive'', ''negative'', ''neutral''}"
proof -
  from assms(1) have "j \<noteq> JNull" by auto
  moreover from assms(2) have "toLowerCase l \<noteq> []"
    using toLowerCase_length [of l] by auto
  ultimately have "map_sum id sentiment (alphaVantageItem j i) = Inr (Some (JStr (toLowerCase l)))"
    using assms(1) by (simp add: alphaVantageItem_def or_else_def)
  moreover have "toLowerCase ''Somewhat-Bullish'' = ''somewhat-bullish''"
    by (simp add: toLowerCase_def toLowerCase_char_def)
  ultimately show ?thesis by simp
qed

theorem sentiment_passthrough_witness:
  "getProp bullish_story ''overall_sentiment_label'' = Some (JStr ''Somewhat-Bullish'')
   \<and> ''Somewhat-Bullish'' \<noteq> []
   \<and> map_sum id sentiment (alphaVantageItem bullish_story 3) = Inr (Some (JStr ''somewhat-bullish''))"
proof -
  have h1: "getProp bullish_story ''overall_sentiment_label'' = Some (JStr ''Somewhat-Bullish'')"
    by (simp add: bullish_story_def)
  have h2: "''Somewhat-Bullish'' \<noteq> []" by simp
  from sentiment_passthrough [OF h1 h2, of 3] h1 show ?thesis by simp
qed

end
